theory Spec2Isabelle
  imports Main "HOL-Library.Word"
begin

section \<open>ATen/AccumulateType.h: the accumulation type of a scalar type\<close>

subsection \<open>Element types and device types\<close>

text \<open>
  The C++ types that the header names as template arguments. \<open>Half\<close> is
  \<open>c10::Half\<close>; \<open>half\<close> is the native type of \<open>cuda_fp16.h\<close>, a different
  type, which exists only in a CUDA or HIP compilation. \<open>c10_complex T\<close> is the
  template instance \<open>c10::complex<T>\<close>. The template parameter \<open>typename T\<close>
  ranges over every C++ type, so \<open>other_t\<close> stands for a type that no line of the
  header names (\<open>other_t ''uint16_t''\<close>, \<open>other_t ''long double''\<close>).
\<close>

datatype ctype =
    bool_t | int8_t | uint8_t | char_t | int16_t | int32_t | int64_t
  | Half | BFloat16
  | Float8_e5m2 | Float8_e5m2fnuz | Float8_e4m3fn | Float8_e4m3fnuz
  | float_t | double_t
  | c10_complex ctype
  | half
  | other_t string

text \<open>
  \<open>c10::DeviceType\<close> is declared in \<open>c10/core/DeviceType.h\<close>, which is not part of
  the two files at hand. The header uses three of its enumerators; every further
  enumerator of the enumeration is \<open>OtherDevice k\<close>.
\<close>

datatype DeviceType = CPU | CUDA | MPS | OtherDevice nat

subsection \<open>The specializations\<close>

text \<open>
  \<^verbatim>\<open>
  #define ACC_TYPE(t, acc_t, device_type)         \
    template <>                                   \
    struct AccumulateTypeDevice<t, device_type> { \
      using type = acc_t;                         \
    };
  \<close>
  One use of the macro is one explicit specialization: the key \<open>(t, device_type)\<close>
  and the member \<open>type = acc_t\<close>.
\<close>

type_synonym specialization = "(ctype \<times> DeviceType) \<times> ctype"

definition ACC_TYPE :: "ctype \<Rightarrow> ctype \<Rightarrow> DeviceType \<Rightarrow> specialization" where
  "ACC_TYPE t acc_t device_type = ((t, device_type), acc_t)"

definition MPS_ACC_TYPE :: "ctype \<Rightarrow> ctype \<Rightarrow> specialization" where
  "MPS_ACC_TYPE t acc_t = ACC_TYPE t acc_t MPS"

definition CUDA_ACC_TYPE :: "ctype \<Rightarrow> ctype \<Rightarrow> specialization" where
  "CUDA_ACC_TYPE t acc_t = ACC_TYPE t acc_t CUDA"

definition CPU_ACC_TYPE :: "ctype \<Rightarrow> ctype \<Rightarrow> specialization" where
  "CPU_ACC_TYPE t acc_t = ACC_TYPE t acc_t CPU"

text \<open>
  The specializations in the order of the header (lines 86 to 144). The flag
  \<open>cudacc\<close> is the preprocessor condition
  \<^verbatim>\<open>defined(__CUDACC__) || defined(__HIPCC__)\<close> that guards the line
  \<^verbatim>\<open>CUDA_ACC_TYPE(half, float);\<close>.
\<close>

definition specializations :: "bool \<Rightarrow> specialization list" where
  "specializations cudacc =
    [ MPS_ACC_TYPE BFloat16 float_t,
      MPS_ACC_TYPE Half float_t,
      MPS_ACC_TYPE Float8_e5m2 float_t,
      MPS_ACC_TYPE Float8_e5m2fnuz float_t,
      MPS_ACC_TYPE Float8_e4m3fn float_t,
      MPS_ACC_TYPE Float8_e4m3fnuz float_t,
      MPS_ACC_TYPE float_t float_t,
      MPS_ACC_TYPE double_t float_t,
      MPS_ACC_TYPE int8_t int64_t,
      MPS_ACC_TYPE uint8_t int64_t,
      MPS_ACC_TYPE char_t int64_t,
      MPS_ACC_TYPE int16_t int64_t,
      MPS_ACC_TYPE int32_t int64_t,
      MPS_ACC_TYPE int64_t int64_t,
      MPS_ACC_TYPE bool_t bool_t,
      MPS_ACC_TYPE (c10_complex Half) (c10_complex float_t),
      MPS_ACC_TYPE (c10_complex float_t) (c10_complex float_t),
      MPS_ACC_TYPE (c10_complex double_t) (c10_complex float_t) ]
    @ (if cudacc then [ CUDA_ACC_TYPE half float_t ] else [])
    @ [ CUDA_ACC_TYPE BFloat16 float_t,
      CUDA_ACC_TYPE Half float_t,
      CUDA_ACC_TYPE Float8_e5m2 float_t,
      CUDA_ACC_TYPE Float8_e5m2fnuz float_t,
      CUDA_ACC_TYPE Float8_e4m3fn float_t,
      CUDA_ACC_TYPE Float8_e4m3fnuz float_t,
      CUDA_ACC_TYPE float_t float_t,
      CUDA_ACC_TYPE double_t double_t,
      CUDA_ACC_TYPE int8_t int64_t,
      CUDA_ACC_TYPE uint8_t int64_t,
      CUDA_ACC_TYPE char_t int64_t,
      CUDA_ACC_TYPE int16_t int64_t,
      CUDA_ACC_TYPE int32_t int64_t,
      CUDA_ACC_TYPE int64_t int64_t,
      CUDA_ACC_TYPE bool_t bool_t,
      CUDA_ACC_TYPE (c10_complex Half) (c10_complex float_t),
      CUDA_ACC_TYPE (c10_complex float_t) (c10_complex float_t),
      CUDA_ACC_TYPE (c10_complex double_t) (c10_complex double_t),
      CPU_ACC_TYPE BFloat16 float_t,
      CPU_ACC_TYPE Half float_t,
      CPU_ACC_TYPE Float8_e5m2 float_t,
      CPU_ACC_TYPE Float8_e5m2fnuz float_t,
      CPU_ACC_TYPE Float8_e4m3fn float_t,
      CPU_ACC_TYPE Float8_e4m3fnuz float_t,
      CPU_ACC_TYPE float_t double_t,
      CPU_ACC_TYPE double_t double_t,
      CPU_ACC_TYPE int8_t int64_t,
      CPU_ACC_TYPE uint8_t int64_t,
      CPU_ACC_TYPE char_t int64_t,
      CPU_ACC_TYPE int16_t int64_t,
      CPU_ACC_TYPE int32_t int64_t,
      CPU_ACC_TYPE int64_t int64_t,
      CPU_ACC_TYPE bool_t bool_t,
      CPU_ACC_TYPE (c10_complex Half) (c10_complex float_t),
      CPU_ACC_TYPE (c10_complex float_t) (c10_complex double_t),
      CPU_ACC_TYPE (c10_complex double_t) (c10_complex double_t) ]"

subsection \<open>The templates\<close>

text \<open>
  \<^verbatim>\<open>
  template <typename T, c10::DeviceType D>
  struct AccumulateTypeDevice {};
  \<close>
  The primary template has no member \<open>type\<close>: naming
  \<open>AccumulateTypeDevice<T, D>::type\<close> for a pair without a specialization does not
  compile. The model returns the member \<open>type\<close> of the matching specialization and
  \<open>None\<close> where the program is rejected.
\<close>

definition AccumulateTypeDevice :: "bool \<Rightarrow> ctype \<Rightarrow> DeviceType \<Rightarrow> ctype option" where
  "AccumulateTypeDevice cudacc T D = map_of (specializations cudacc) (T, D)"

text \<open>
  \<^verbatim>\<open>
  template <typename T, bool> struct AccumulateType {};
  template <typename T> struct AccumulateType<T, false> {
    using type = typename AccumulateTypeDevice<T, c10::DeviceType::CPU>::type; };
  template <typename T> struct AccumulateType<T, true> {
    using type = typename AccumulateTypeDevice<T, c10::DeviceType::CUDA>::type; };
  \<close>
\<close>

fun AccumulateType :: "bool \<Rightarrow> ctype \<Rightarrow> bool \<Rightarrow> ctype option" where
  "AccumulateType cudacc T False = AccumulateTypeDevice cudacc T CPU"
| "AccumulateType cudacc T True = AccumulateTypeDevice cudacc T CUDA"

text \<open>The two alias templates.\<close>

definition acc_type_device :: "bool \<Rightarrow> ctype \<Rightarrow> DeviceType \<Rightarrow> ctype option" where
  "acc_type_device cudacc T device = AccumulateTypeDevice cudacc T device"

definition acc_type :: "bool \<Rightarrow> ctype \<Rightarrow> bool \<Rightarrow> ctype option" where
  "acc_type cudacc T is_cuda = AccumulateType cudacc T is_cuda"

subsection \<open>The key space of the table\<close>

text \<open>
  The element types and the device types for which the header writes a
  specialization in every compilation: eighteen types on each of three devices.
\<close>

definition element_types :: "ctype list" where
  "element_types =
    [bool_t, int8_t, uint8_t, char_t, int16_t, int32_t, int64_t,
     Half, BFloat16, Float8_e5m2, Float8_e5m2fnuz, Float8_e4m3fn, Float8_e4m3fnuz,
     float_t, double_t,
     c10_complex Half, c10_complex float_t, c10_complex double_t]"

definition device_classes :: "DeviceType list" where
  "device_classes = [CPU, CUDA, MPS]"

text \<open>The floating-point types among them (the rule "If floating point" of the header).\<close>

definition floating_types :: "ctype list" where
  "floating_types =
    [Half, BFloat16, Float8_e5m2, Float8_e5m2fnuz, Float8_e4m3fn, Float8_e4m3fnuz,
     float_t, double_t]"

section \<open>lazy\_tensor\_core/csrc/ops/generic\_slice.cpp: the slice node\<close>

subsection \<open>What the node is built from\<close>

type_synonym int64 = "64 word"

text \<open>
  Modelled from the spec: the shape of a tensor, which
  \<open>lazy_tensors::Shape\<close> declares outside these files. The spec speaks of a
  shape as its extents per dimension (\<open>(8, 8)\<close>, \<open>(5,)\<close>); the rank is the length.
\<close>

type_synonym Shape = "int64 list"

text \<open>
  Modelled from the spec: \<open>torch::lazy::Value\<close>, the reference to one output
  of an operand node, declared outside these files. The model keeps what a slice
  node observes through the reference: which node and which output it is, and the
  shape of that output.
\<close>

record Value =
  node :: nat
  index :: nat
  value_shape :: Shape

text \<open>
  The operation kinds: \<open>ltc_generic_slice\<close> is declared in \<open>ltc_ops.h\<close>, outside
  these files; \<open>other_op k\<close> is any other kind.
\<close>

datatype OpKind = ltc_generic_slice | other_op nat

text \<open>
  Modelled from the spec: the structural hash. \<open>torch::lazy::hash_t\<close> and
  \<open>torch::lazy::MHash\<close> are declared in \<open>torch/csrc/lazy/core/hash.h\<close>, outside
  these files, and neither they nor the spec give the width of a hash value or
  the function \<open>MHash\<close>. The hash is carried as a 128-bit word, and no theorem
  below depends on the width; \<open>MHash\<close> itself is a parameter of the constructor
  below, and nothing is proved about the values it returns.
\<close>

type_synonym hash_t = "128 word"

type_synonym mhash = "int64 list \<Rightarrow> int64 list \<Rightarrow> hash_t"

text \<open>
  The two ways in which the operations of this file fail: the checked access
  \<open>c10::ArrayRef::at\<close> rejects an index, or shape inference rejects the node.
\<close>

datatype error = invalid_index | graph_construction_error

text \<open>
  Modelled from the spec: the slot of the deferred shape, which holds either the
  recipe, not yet run, or the shape that the recipe has computed. \<open>no_shape\<close>
  is the slot of the base object before the constructor body has registered the
  recipe.
\<close>

datatype shape_slot = no_shape | deferred "unit \<Rightarrow> error + Shape" | computed Shape

text \<open>
  Modelled from the spec: the base class \<open>TsNode\<close>, declared outside these
  files. Its constructor receives the operation kind, the operands, the number of
  outputs and the hash seed, and keeps them; its shape is the slot above.
\<close>

record TsNode =
  op :: OpKind
  operands :: "Value list"
  num_outputs :: nat
  hash_seed :: hash_t
  m_shape :: shape_slot

text \<open>
  The class \<open>GenericSlice\<close>: a \<open>TsNode\<close> with the two attribute vectors. A name
  cannot end in an underscore here, so the members \<^verbatim>\<open>base_indices_\<close>,
  \<^verbatim>\<open>sizes_\<close> and \<^verbatim>\<open>shape_\<close> are the fields \<open>m_base_indices\<close>,
  \<open>m_sizes\<close> and \<open>m_shape\<close>.
\<close>

record GenericSlice = TsNode +
  m_base_indices :: "int64 list"
  m_sizes :: "int64 list"

subsection \<open>Shape inference and the deferred shape\<close>

text \<open>
  Modelled from the spec: \<open>compiler::InferShape\<close> on a slice node, defined in
  \<open>ts_shape_inference.cpp\<close>, outside these files. The spec: the output extents are
  \<open>sizes\<close>; \<open>base_indices\<close> and \<open>sizes\<close> have the rank of the input; every base
  index is at least 0 and \<open>base_indices[i] + sizes[i] <= input.shape[i]\<close>; a node
  that breaks one of these makes shape inference fail. The sums are taken in the
  integers.
\<close>

definition in_bounds :: "int64 \<times> int64 \<times> int64 \<Rightarrow> bool" where
  "in_bounds = (\<lambda>(b, s, d). 0 \<le> sint b \<and> sint b + sint s \<le> sint d)"

definition InferShape :: "GenericSlice \<Rightarrow> error + Shape" where
  "InferShape n =
    (case operands n of
       [] \<Rightarrow> Inl graph_construction_error
     | input # _ \<Rightarrow>
         (let dims = value_shape input in
          if length (m_base_indices n) = length dims \<and> length (m_sizes n) = length dims
             \<and> list_all in_bounds (zip (m_base_indices n) (zip (m_sizes n) dims))
          then Inr (m_sizes n)
          else Inl graph_construction_error))"

text \<open>
  Modelled from the spec: \<open>SetShapeDeferred\<close> registers the recipe and does not
  run it.
\<close>

definition SetShapeDeferred :: "(unit \<Rightarrow> error + Shape) \<Rightarrow> GenericSlice \<Rightarrow> GenericSlice" where
  "SetShapeDeferred shape_fn n = n\<lparr>m_shape := deferred shape_fn\<rparr>"

text \<open>
  Modelled from the spec: the shape accessor of the node. The first access runs
  the recipe and keeps the shape it computes; a later access returns the kept
  shape. A recipe that fails leaves the slot as it was: the failure goes to the
  caller and no shape is stored.
\<close>

definition shape :: "GenericSlice \<Rightarrow> (error + Shape) \<times> GenericSlice" where
  "shape n =
    (case m_shape n of
       computed s \<Rightarrow> (Inr s, n)
     | deferred shape_fn \<Rightarrow>
         (case shape_fn () of
            Inl e \<Rightarrow> (Inl e, n)
          | Inr s \<Rightarrow> (Inr s, n\<lparr>m_shape := computed s\<rparr>))
     | no_shape \<Rightarrow> (Inl graph_construction_error, n))"

subsection \<open>The constructor, Clone and ToString\<close>

text \<open>
  \<^verbatim>\<open>
  GenericSlice::GenericSlice(const torch::lazy::Value& input,
                             c10::ArrayRef<int64_t> base_indices,
                             c10::ArrayRef<int64_t> sizes)
      : TsNode(ltc_generic_slice, {input},
               /*num_outputs=*/1, torch::lazy::MHash(base_indices, sizes)),
        base_indices_(base_indices.begin(), base_indices.end()),
        sizes_(sizes.begin(), sizes.end()) {
    SetShapeDeferred(
        [&]() { return compiler::InferShape(this); });
  }
  \<close>
  \<open>this\<close> is the object after the member initializers; the body registers the
  recipe that infers the shape of \<open>this\<close>.
\<close>

definition GenericSlice :: "mhash \<Rightarrow> Value \<Rightarrow> int64 list \<Rightarrow> int64 list \<Rightarrow> GenericSlice" where
  "GenericSlice MHash input base_indices sizes =
    (let this = \<lparr> op = ltc_generic_slice, operands = [input], num_outputs = 1,
                  hash_seed = MHash base_indices sizes, m_shape = no_shape,
                  m_base_indices = base_indices, m_sizes = sizes \<rparr>
     in SetShapeDeferred (\<lambda>_. InferShape this) this)"

text \<open>
  The checked access \<open>at\<close> of the operand list (\<open>c10::ArrayRef::at\<close>, declared
  outside these files): an index that is not below the length is an error.
\<close>

definition ArrayRef_at :: "'a list \<Rightarrow> nat \<Rightarrow> error + 'a" where
  "ArrayRef_at xs i = (if i < length xs then Inr (xs ! i) else Inl invalid_index)"

text \<open>
  \<^verbatim>\<open>
  NodePtr GenericSlice::Clone(OpList operands) const {
    return torch::lazy::MakeNode<GenericSlice>(operands.at(0), base_indices_, sizes_);
  }
  \<close>
  \<open>MakeNode<GenericSlice>\<close> allocates the node that the constructor builds from
  the arguments. The parameter \<open>operands\<close> is \<open>new_operands\<close> here, apart from
  the field of the node.
\<close>

definition Clone :: "mhash \<Rightarrow> GenericSlice \<Rightarrow> Value list \<Rightarrow> error + GenericSlice" where
  "Clone MHash this new_operands =
    (case ArrayRef_at new_operands 0 of
       Inl e \<Rightarrow> Inl e
     | Inr input \<Rightarrow> Inr (GenericSlice MHash input (m_base_indices this) (m_sizes this)))"

text \<open>
  Writing an \<open>int64_t\<close> to a stream: the decimal numeral of its signed value.
\<close>

fun decimal :: "nat \<Rightarrow> string" where
  "decimal n =
    (if n < 10 then [''0123456789'' ! n]
     else decimal (n div 10) @ [''0123456789'' ! (n mod 10)])"

declare decimal.simps [simp del]

definition show_int64 :: "int64 \<Rightarrow> string" where
  "show_int64 w =
    (if sint w < 0 then CHR ''-'' # decimal (nat (- sint w)) else decimal (nat (sint w)))"

text \<open>
  Modelled from the spec: \<open>c10::Join\<close>, declared in \<open>c10/util/StringUtil.h\<close>,
  outside these files: the elements, each written to the stream, with the
  delimiter between neighbours.
\<close>

fun Join :: "string \<Rightarrow> int64 list \<Rightarrow> string" where
  "Join delimiter [] = []"
| "Join delimiter [x] = show_int64 x"
| "Join delimiter (x # y # ys) = show_int64 x @ delimiter @ Join delimiter (y # ys)"

text \<open>
  \<^verbatim>\<open>
  std::string GenericSlice::ToString() const {
    std::stringstream ss;
    ss << TsNode::ToString() << ", base_indices=("
       << c10::Join(", ", base_indices_) << "), sizes=("
       << c10::Join(", ", sizes_) << ")";
    return ss.str();
  }
  \<close>
  \<open>TsNode::ToString\<close>, the description that the base class gives of the node, is
  defined outside these files and is a parameter here.
\<close>

definition ToString :: "(GenericSlice \<Rightarrow> string) \<Rightarrow> GenericSlice \<Rightarrow> string" where
  "ToString TsNode_ToString this =
    TsNode_ToString this @ '', base_indices=('' @ Join '', '' (m_base_indices this)
      @ ''), sizes=('' @ Join '', '' (m_sizes this) @ '')''"

section \<open>Properties of the accumulation types\<close>

lemmas ACC_TYPE_defs =
  ACC_TYPE_def MPS_ACC_TYPE_def CUDA_ACC_TYPE_def CPU_ACC_TYPE_def

lemmas table_defs = AccumulateTypeDevice_def specializations_def ACC_TYPE_defs

text \<open>
  No pair of an element type and a device has two specializations (a second one
  would be a redefinition, which the compiler rejects), so the lookup does not
  depend on the order of the table.
\<close>

lemma specializations_distinct: "distinct (map fst (specializations cudacc))"
  by (simp add: specializations_def ACC_TYPE_defs)

text \<open>
  C1, as the header has it. For every floating-point element type (\<open>Half\<close>,
  \<open>BFloat16\<close>, the four float8 types, \<open>float\<close>, \<open>double\<close>) the accumulation
  type on the Metal-like device \<open>MPS\<close> is \<open>float\<close>; on \<open>CUDA\<close> it is \<open>float\<close>
  for each of them but \<open>double\<close>, which accumulates in \<open>double\<close>. The header's
  comment says so: "If CUDA, use 'float' as acc_type (unless scalar_t is double)".
\<close>

theorem accelerator_floating_acc_type:
  "T \<in> set floating_types \<Longrightarrow>
     acc_type_device cudacc T MPS = Some float_t
     \<and> acc_type_device cudacc T CUDA = Some (if T = double_t then double_t else float_t)"
proof -
  assume "T \<in> set floating_types"
  then consider "T = Half" | "T = BFloat16" | "T = Float8_e5m2" | "T = Float8_e5m2fnuz"
    | "T = Float8_e4m3fn" | "T = Float8_e4m3fnuz" | "T = float_t" | "T = double_t"
    unfolding floating_types_def by auto
  then show ?thesis
    by cases (simp_all add: acc_type_device_def table_defs)
qed

text \<open>The theorem at \<open>double\<close>, the one type that the two accelerators treat differently.\<close>

theorem accelerator_floating_acc_type_witness:
  "double_t \<in> set floating_types
   \<and> acc_type_device False double_t MPS = Some float_t
   \<and> acc_type_device False double_t CUDA = Some double_t"
  using accelerator_floating_acc_type [of double_t False]
  by (simp add: floating_types_def)

text \<open>
  C1 as stated fails: on \<open>CUDA\<close> the type \<open>double\<close> resolves to \<open>double\<close>, not
  to \<open>float\<close>, with and without the CUDA compiler.
\<close>

theorem cuda_double_acc_type_counterexample:
  "acc_type_device False double_t CUDA = Some double_t
   \<and> acc_type_device True double_t CUDA = Some double_t
   \<and> Some double_t \<noteq> Some float_t"
  by (simp add: acc_type_device_def table_defs)

text \<open>
  C2, as the header has it. A complex element type resolves component by
  component: for \<open>T\<close> among \<open>Half\<close>, \<open>float\<close>, \<open>double\<close> and each of the three
  devices, \<open>complex<T>\<close> resolves to the complex type over the accumulation type of
  \<open>T\<close> on that device. So \<open>complex<double>\<close> resolves to \<open>complex<float>\<close> on
  \<open>MPS\<close>, stays \<open>complex<double>\<close> on \<open>CUDA\<close>, and on \<open>CPU\<close> \<open>complex<float>\<close>
  resolves to \<open>complex<double>\<close>.
\<close>

theorem complex_acc_type_componentwise:
  "T \<in> set [Half, float_t, double_t] \<Longrightarrow> D \<in> set [CPU, CUDA, MPS] \<Longrightarrow>
     acc_type_device cudacc (c10_complex T) D
       = map_option c10_complex (acc_type_device cudacc T D)
     \<and> acc_type_device cudacc (c10_complex double_t) MPS = Some (c10_complex float_t)
     \<and> acc_type_device cudacc (c10_complex double_t) CUDA = Some (c10_complex double_t)
     \<and> acc_type_device cudacc (c10_complex float_t) CPU = Some (c10_complex double_t)"
proof -
  assume "T \<in> set [Half, float_t, double_t]" and "D \<in> set [CPU, CUDA, MPS]"
  then have T: "T = Half \<or> T = float_t \<or> T = double_t"
    and D: "D = CPU \<or> D = CUDA \<or> D = MPS"
    by simp_all
  from T D show ?thesis
    by (elim disjE) (simp_all add: acc_type_device_def table_defs)
qed

text \<open>The theorem at \<open>complex<double>\<close> on \<open>MPS\<close>.\<close>

theorem complex_acc_type_componentwise_witness:
  "double_t \<in> set [Half, float_t, double_t] \<and> MPS \<in> set [CPU, CUDA, MPS]
   \<and> acc_type_device False (c10_complex double_t) MPS
       = map_option c10_complex (acc_type_device False double_t MPS)
   \<and> acc_type_device False (c10_complex double_t) MPS = Some (c10_complex float_t)"
  using complex_acc_type_componentwise [of double_t MPS False]
  by (simp add: acc_type_device_def table_defs)

text \<open>
  C2 as stated fails: on the accelerator \<open>CUDA\<close>, \<open>complex<double>\<close> resolves to
  \<open>complex<double>\<close>, not to \<open>complex<float>\<close>.
\<close>

theorem cuda_complex_double_counterexample:
  "acc_type_device False (c10_complex double_t) CUDA = Some (c10_complex double_t)
   \<and> acc_type_device True (c10_complex double_t) CUDA = Some (c10_complex double_t)
   \<and> Some (c10_complex double_t) \<noteq> Some (c10_complex float_t)"
  by (simp add: acc_type_device_def table_defs)

text \<open>
  C3, as the header has it. A pair of an element type and a device has an
  accumulation type exactly when it is one of the eighteen element types on one of
  \<open>CPU\<close>, \<open>CUDA\<close>, \<open>MPS\<close>, or, in a CUDA or HIP compilation, the native type
  \<open>half\<close> on \<open>CUDA\<close>. Every other pair meets the primary template, which has no
  member \<open>type\<close>.
\<close>

theorem acc_type_device_defined_iff:
  "(\<exists>acc_t. acc_type_device cudacc T D = Some acc_t) =
   (T \<in> set element_types \<and> D \<in> set device_classes \<or> cudacc \<and> T = half \<and> D = CUDA)"
proof (cases T)
  case (c10_complex x)
  then show ?thesis
    by (cases D; cases x;
        simp add: acc_type_device_def table_defs element_types_def device_classes_def)
qed (cases D;
     simp add: acc_type_device_def table_defs element_types_def device_classes_def)+

text \<open>
  C3 as stated fails in a CUDA or HIP compilation: the pair of the native \<open>half\<close>
  and \<open>CUDA\<close> is outside the table of eighteen types, and it resolves to \<open>float\<close>.
\<close>

theorem cuda_native_half_counterexample:
  "half \<notin> set element_types \<and> acc_type_device True half CUDA = Some float_t"
  by (simp add: element_types_def acc_type_device_def table_defs)

text \<open>
  C4. For every element type \<open>T\<close> the form with the boolean flag agrees with the
  form with the device: \<open>acc_type<T, true>\<close> is \<open>acc_type_device<T, CUDA>\<close> and
  \<open>acc_type<T, false>\<close> is \<open>acc_type_device<T, CPU>\<close>, also where neither
  resolves.
\<close>

theorem acc_type_flag_agrees_with_device:
  "acc_type cudacc T True = acc_type_device cudacc T CUDA
   \<and> acc_type cudacc T False = acc_type_device cudacc T CPU"
  by (simp add: acc_type_def acc_type_device_def)

text \<open>
  C5. On the CPU device class the element type \<open>float\<close> resolves to the
  accumulation type \<open>double\<close>, in a host compilation and in a CUDA or HIP
  compilation alike.
\<close>

theorem cpu_float_accumulates_in_double:
  "acc_type_device cudacc float_t CPU = Some double_t"
  by (simp add: acc_type_device_def table_defs)

section \<open>Properties of the slice node\<close>

subsection \<open>What the constructor builds\<close>

lemma InferShape_reads:
  "operands a = operands b \<Longrightarrow> m_base_indices a = m_base_indices b \<Longrightarrow>
   m_sizes a = m_sizes b \<Longrightarrow> InferShape a = InferShape b"
  by (simp add: InferShape_def Let_def split: list.split)

lemma GenericSlice_fields:
  "op (GenericSlice MHash input bi sz) = ltc_generic_slice"
  "operands (GenericSlice MHash input bi sz) = [input]"
  "num_outputs (GenericSlice MHash input bi sz) = 1"
  "hash_seed (GenericSlice MHash input bi sz) = MHash bi sz"
  "m_base_indices (GenericSlice MHash input bi sz) = bi"
  "m_sizes (GenericSlice MHash input bi sz) = sz"
  by (simp_all add: GenericSlice_def SetShapeDeferred_def Let_def)

lemma GenericSlice_m_shape:
  "m_shape (GenericSlice MHash input bi sz)
     = deferred (\<lambda>_. InferShape (GenericSlice MHash input bi sz))"
proof -
  have "InferShape (GenericSlice MHash input bi sz)
      = InferShape \<lparr> op = ltc_generic_slice, operands = [input], num_outputs = 1,
          hash_seed = MHash bi sz, m_shape = no_shape,
          m_base_indices = bi, m_sizes = sz \<rparr>"
    by (rule InferShape_reads) (simp_all add: GenericSlice_fields)
  then show ?thesis
    by (simp add: GenericSlice_def SetShapeDeferred_def Let_def)
qed

lemma InferShape_GenericSlice:
  "InferShape (GenericSlice MHash input bi sz) =
     (if length bi = length (value_shape input) \<and> length sz = length (value_shape input)
         \<and> list_all in_bounds (zip bi (zip sz (value_shape input)))
      then Inr sz else Inl graph_construction_error)"
  by (simp add: InferShape_def GenericSlice_fields Let_def)

lemma shape_GenericSlice:
  "fst (shape (GenericSlice MHash input bi sz)) = InferShape (GenericSlice MHash input bi sz)"
  by (simp add: shape_def GenericSlice_m_shape split: sum.split)

lemma in_bounds_fails:
  assumes "length bi = length dims" "length sz = length dims" "i < length dims"
    "sint (dims ! i) < sint (bi ! i) + sint (sz ! i)"
  shows "\<not> list_all in_bounds (zip bi (zip sz dims))"
proof -
  have "(bi ! i, sz ! i, dims ! i) \<in> set (zip bi (zip sz dims))"
    using assms by (auto simp: in_set_zip intro!: exI [of _ i])
  moreover have "\<not> in_bounds (bi ! i, sz ! i, dims ! i)"
    using assms by (simp add: in_bounds_def)
  ultimately show ?thesis by (auto simp: list_all_iff)
qed

subsection \<open>Clone\<close>

text \<open>
  C6. For any slice node \<open>n\<close> and a replacement list of exactly one operand
  \<open>v\<close>, \<open>Clone\<close> returns a new slice node: its \<open>base_indices\<close> and \<open>sizes\<close> are
  those of \<open>n\<close> and its single input is \<open>v\<close>. Its shape is the registered recipe,
  not yet run, which infers the shape of the clone itself: the first access
  computes it from \<open>sizes\<close> and the shape of \<open>v\<close>. Nothing is taken from the
  shape slot of \<open>n\<close>: whatever shape \<open>n\<close> has cached, the clone is the same.
\<close>

theorem Clone_one_operand:
  "\<exists>c. Clone MHash n [v] = Inr c
      \<and> m_base_indices c = m_base_indices n \<and> m_sizes c = m_sizes n
      \<and> operands c = [v] \<and> op c = ltc_generic_slice \<and> num_outputs c = 1
      \<and> m_shape c = deferred (\<lambda>_. InferShape c)
      \<and> fst (shape c) = InferShape c
      \<and> InferShape c =
          (if length (m_base_indices n) = length (value_shape v)
              \<and> length (m_sizes n) = length (value_shape v)
              \<and> list_all in_bounds
                  (zip (m_base_indices n) (zip (m_sizes n) (value_shape v)))
           then Inr (m_sizes n) else Inl graph_construction_error)
      \<and> Clone MHash (n\<lparr>m_shape := cached\<rparr>) [v] = Inr c"
  by (simp add: Clone_def ArrayRef_at_def GenericSlice_fields GenericSlice_m_shape
      shape_GenericSlice InferShape_GenericSlice)

text \<open>
  C10. \<open>Clone\<close> reads the operand at index 0 only: with one operand or more, the
  operands after the first do not change the node that it returns, and with the
  empty list the checked access fails and no node is built.
\<close>

theorem Clone_reads_first_operand_only:
  "Clone MHash n (v # rest) = Clone MHash n [v]
   \<and> Clone MHash n (v # rest) = Inr (GenericSlice MHash v (m_base_indices n) (m_sizes n))
   \<and> Clone MHash n [] = Inl invalid_index"
  by (simp add: Clone_def ArrayRef_at_def)

subsection \<open>Shape inference\<close>

text \<open>
  C7. For a slice node whose \<open>base_indices\<close> and \<open>sizes\<close> do not fit the shape of
  its input (a rank that differs from the rank of the input, or a dimension \<open>i\<close>
  where \<open>base_indices[i] + sizes[i]\<close> is above the extent of the input), shape
  inference fails with the graph construction error, and the access to the shape
  of the node returns that error and leaves the node as it was: no shape is
  stored in it.
\<close>

theorem InferShape_rejects_inconsistent_slice:
  assumes "length bi \<noteq> length (value_shape input)
         \<or> length sz \<noteq> length (value_shape input)
         \<or> (\<exists>i < length (value_shape input).
              sint (value_shape input ! i) < sint (bi ! i) + sint (sz ! i))"
  shows "InferShape (GenericSlice MHash input bi sz) = Inl graph_construction_error
       \<and> shape (GenericSlice MHash input bi sz)
           = (Inl graph_construction_error, GenericSlice MHash input bi sz)"
proof -
  have "\<not> (length bi = length (value_shape input) \<and> length sz = length (value_shape input)
      \<and> list_all in_bounds (zip bi (zip sz (value_shape input))))"
    using assms in_bounds_fails [of bi "value_shape input" sz] by blast
  then have "InferShape (GenericSlice MHash input bi sz) = Inl graph_construction_error"
    by (simp add: InferShape_GenericSlice)
  then show ?thesis
    by (simp add: shape_def GenericSlice_m_shape)
qed

text \<open>
  The theorem at the example of the spec: \<open>base_indices = (0,)\<close> and
  \<open>sizes = (10,)\<close> against an input of shape \<open>(5,)\<close>.
\<close>

theorem InferShape_rejects_inconsistent_slice_witness:
  "sint ([5 :: int64] ! 0) < sint ([0 :: int64] ! 0) + sint ([10 :: int64] ! 0)
   \<and> InferShape (GenericSlice (\<lambda>_ _. 0) \<lparr>node = 0, index = 0, value_shape = [5]\<rparr> [0] [10])
     = Inl graph_construction_error
   \<and> shape (GenericSlice (\<lambda>_ _. 0) \<lparr>node = 0, index = 0, value_shape = [5]\<rparr> [0] [10])
     = (Inl graph_construction_error,
        GenericSlice (\<lambda>_ _. 0) \<lparr>node = 0, index = 0, value_shape = [5]\<rparr> [0] [10])"
proof -
  have "\<exists>i < length [5 :: int64].
      sint ([5 :: int64] ! i) < sint ([0 :: int64] ! i) + sint ([10 :: int64] ! i)"
    by (rule exI [of _ 0]) simp
  then show ?thesis
    using InferShape_rejects_inconsistent_slice
      [of "[0]" "\<lparr>node = 0, index = 0, value_shape = [5]\<rparr>" "[10]" "\<lambda>_ _. 0"]
    by simp
qed

subsection \<open>ToString\<close>

text \<open>
  C8. For every slice node, \<open>ToString\<close> returns the description of the base node
  followed by exactly \<open>, base_indices=(\<close>, the base indices joined by a comma
  and a space, \<open>), sizes=(\<close>, the sizes joined in the same way, and \<open>)\<close>. A node
  with \<open>base_indices = (2, 3)\<close> and \<open>sizes = (4, 4)\<close> gives the description of
  the base node followed by \<open>, base_indices=(2, 3), sizes=(4, 4)\<close>.
\<close>

theorem ToString_format:
  "ToString TsNode_ToString n
     = TsNode_ToString n @ '', base_indices=('' @ Join '', '' (m_base_indices n)
         @ ''), sizes=('' @ Join '', '' (m_sizes n) @ '')''
   \<and> ToString TsNode_ToString (GenericSlice MHash input [2, 3] [4, 4])
     = TsNode_ToString (GenericSlice MHash input [2, 3] [4, 4])
         @ '', base_indices=(2, 3), sizes=(4, 4)''"
  by (simp add: ToString_def GenericSlice_fields show_int64_def decimal.simps)

end
